theory Spec2Isabelle
  imports Main "HOL-Library.Sublist"
begin

section \<open>The system information plugin\<close>

text \<open>
  The plugin is one class, \<open>SystemInformationPlugin\<close>. Its method \<open>get_system_info\<close>
  reads the operating system through the standard library module \<open>platform\<close> and the
  package \<open>distro\<close>, and \<open>post_prompt\<close> adds the text it builds to the prompt of the
  host framework. Every other method is a stub.
\<close>

subsection \<open>Exceptions and results\<close>

text \<open>
  A library call that raises is identified by the text of its exception. The method itself
  can raise in two more ways: a tuple read out of range (\<open>IndexError\<close>) and the read of a
  local variable that no branch has assigned (\<open>UnboundLocalError\<close>). An exception of a
  library call that leaves the method is \<open>LibraryError\<close> of that text: nothing in the
  method has a \<open>try\<close>.
\<close>

type_synonym lib_error = string

datatype exn = IndexError | UnboundLocalError | LibraryError lib_error

text \<open>Sequencing of statements of the method: the first exception ends it.\<close>

definition seq :: "exn + 'a \<Rightarrow> ('a \<Rightarrow> exn + 'b) \<Rightarrow> exn + 'b" where
  "seq m f = (case m of Inl e \<Rightarrow> Inl e | Inr x \<Rightarrow> f x)"

text \<open>A call of a library function, whose exception is not caught.\<close>

definition call :: "lib_error + 'a \<Rightarrow> ('a \<Rightarrow> exn + 'b) \<Rightarrow> exn + 'b" where
  "call q f = (case q of Inl e \<Rightarrow> Inl (LibraryError e) | Inr x \<Rightarrow> f x)"

text \<open>
  \<open>t[i]\<close> for a tuple \<open>t\<close> and a constant index \<open>i \<ge> 0\<close>: Python raises \<open>IndexError\<close>
  out of range.
\<close>

definition tuple_index :: "'a list \<Rightarrow> nat \<Rightarrow> exn + 'a" where
  "tuple_index t i = (if i < length t then Inr (t ! i) else Inl IndexError)"

text \<open>
  The truth value of a local that holds \<open>None\<close> or a string: \<open>None\<close> and the empty
  string are false.
\<close>

definition truthy :: "string option \<Rightarrow> bool" where
  "truthy v = (case v of None \<Rightarrow> False | Some s \<Rightarrow> s \<noteq> [])"

subsection \<open>The host\<close>

text \<open>
  The host is what the seven library functions the method calls answer on it: a value, or
  the exception raised. A tuple is the list of its fields, a field being the text that an
  f-string writes for it (for a string field, the field itself). On a real host
  \<open>platform.architecture()\<close> is \<open>(bits, linkage)\<close>, \<open>platform.win32_ver()\<close> is
  \<open>(release, version, csd, ptype)\<close> and \<open>platform.mac_ver()\<close> is
  \<open>(release, versioninfo, machine)\<close>. \<open>platform.system()\<close> is called three times and
  answers the same each time. The record is extensible: its \<open>more\<close> part stands for
  the rest of the environment.
\<close>

record host =
  platform_architecture :: "lib_error + string list"
  platform_system :: "lib_error + string"
  distro_lib_name :: "lib_error + string"
  distro_lib_version :: "lib_error + string"
  distro_lib_id :: "lib_error + string"
  platform_win32_ver :: "lib_error + string list"
  platform_mac_ver :: "lib_error + string list"

subsection \<open>\<open>get_system_info\<close>\<close>

text \<open>
  The three blocks that follow the read of the architecture. Each calls
  \<open>platform.system()\<close> and leaves a string, or \<open>None\<close> in its \<open>else\<close> branch.
\<close>

definition get_distro_info :: "'a host_scheme \<Rightarrow> exn + string option" where
  "get_distro_info h =
     call (platform_system h) (\<lambda>s.
       if s = ''Linux'' then
         call (distro_lib_name h) (\<lambda>distro_name.
         call (distro_lib_version h) (\<lambda>distro_version.
         call (distro_lib_id h) (\<lambda>distro_id.
           Inr (Some (distro_name @ '' '' @ distro_version @ '' ('' @ distro_id @ '')'')))))
       else Inr None)"

definition get_win_version :: "'a host_scheme \<Rightarrow> exn + string option" where
  "get_win_version h =
     call (platform_system h) (\<lambda>s.
       if s = ''Windows'' then
         call (platform_win32_ver h) (\<lambda>win_ver.
         seq (tuple_index win_ver 0) (\<lambda>w0.
         seq (tuple_index win_ver 1) (\<lambda>w1.
         seq (tuple_index win_ver 4) (\<lambda>w4.
           Inr (Some (w0 @ '' '' @ w1 @ '' '' @ w4))))))
       else Inr None)"

definition get_mac_version :: "'a host_scheme \<Rightarrow> exn + string option" where
  "get_mac_version h =
     call (platform_system h) (\<lambda>s.
       if s = ''Darwin'' then
         call (platform_mac_ver h) (\<lambda>mac_ver.
         seq (tuple_index mac_ver 0) (\<lambda>m0.
         seq (tuple_index mac_ver 2) (\<lambda>m2.
           Inr (Some (m0 @ '' '' @ m2)))))
       else Inr None)"

text \<open>
  The last block, "Build the prompt": three \<open>if\<close> statements in a row, none with an
  \<open>else\<close>, each assigning \<open>os_info\<close>. The value is the binding of \<open>os_info\<close> after
  them, \<open>None\<close> when no statement has assigned it.
\<close>

definition assign_if :: "string option \<Rightarrow> (string \<Rightarrow> string) \<Rightarrow> string option \<Rightarrow> string option" where
  "assign_if v f os_info =
     (case v of
        None \<Rightarrow> os_info
      | Some s \<Rightarrow> if truthy (Some s) then Some (f s) else os_info)"

definition build_os_info ::
  "string \<Rightarrow> string option \<Rightarrow> string option \<Rightarrow> string option \<Rightarrow> string option" where
  "build_os_info arch distro_info win_version mac_version =
     assign_if mac_version (\<lambda>v. ''macOS '' @ v)
       (assign_if win_version (\<lambda>v. ''Windows '' @ v)
          (assign_if distro_info (\<lambda>v. ''Linux '' @ arch @ '' '' @ v) None))"

text \<open>\<open>return os_info\<close>: reading a local that has no binding raises.\<close>

definition return_local :: "string option \<Rightarrow> exn + string" where
  "return_local os_info = (case os_info of None \<Rightarrow> Inl UnboundLocalError | Some s \<Rightarrow> Inr s)"

definition get_system_info :: "'a host_scheme \<Rightarrow> exn + string" where
  "get_system_info h =
     call (platform_architecture h) (\<lambda>t.
     seq (tuple_index t 0) (\<lambda>arch.
     seq (get_distro_info h) (\<lambda>distro_info.
     seq (get_win_version h) (\<lambda>win_version.
     seq (get_mac_version h) (\<lambda>mac_version.
       return_local (build_os_info arch distro_info win_version mac_version))))))"

subsection \<open>Hosts to run the method on\<close>

text \<open>
  The text of the tuple \<open>('', '', '')\<close>, which is the \<open>versioninfo\<close> field that
  \<open>platform.mac_ver()\<close> returns by default. The method never reads that field.
\<close>

definition no_versioninfo :: string where
  "no_versioninfo =
     (let q = [CHR 0x27, CHR 0x27] in ''('' @ q @ '', '' @ q @ '', '' @ q @ '')'')"

definition linux_host :: host where
  "linux_host =
     \<lparr> platform_architecture = Inr [''64bit'', ''ELF''],
       platform_system = Inr ''Linux'',
       distro_lib_name = Inr ''Ubuntu'',
       distro_lib_version = Inr ''22.04'',
       distro_lib_id = Inr ''ubuntu'',
       platform_win32_ver = Inr ['''', '''', '''', ''''],
       platform_mac_ver = Inr ['''', no_versioninfo, ''''] \<rparr>"

definition windows_host :: host where
  "windows_host =
     \<lparr> platform_architecture = Inr [''64bit'', ''WindowsPE''],
       platform_system = Inr ''Windows'',
       distro_lib_name = Inr '''',
       distro_lib_version = Inr '''',
       distro_lib_id = Inr '''',
       platform_win32_ver = Inr [''10'', ''10.0.19045'', ''SP0'', ''Multiprocessor Free''],
       platform_mac_ver = Inr ['''', no_versioninfo, ''''] \<rparr>"

definition darwin_host :: host where
  "darwin_host =
     \<lparr> platform_architecture = Inr [''64bit'', ''''],
       platform_system = Inr ''Darwin'',
       distro_lib_name = Inr ''Darwin'',
       distro_lib_version = Inr ''23.0.0'',
       distro_lib_id = Inr ''darwin'',
       platform_win32_ver = Inr ['''', '''', '''', ''''],
       platform_mac_ver = Inr [''14.0'', no_versioninfo, ''arm64''] \<rparr>"

definition freebsd_host :: host where
  "freebsd_host =
     \<lparr> platform_architecture = Inr [''64bit'', ''ELF''],
       platform_system = Inr ''FreeBSD'',
       distro_lib_name = Inr ''FreeBSD'',
       distro_lib_version = Inr ''14.0'',
       distro_lib_id = Inr ''freebsd'',
       platform_win32_ver = Inr ['''', '''', '''', ''''],
       platform_mac_ver = Inr ['''', no_versioninfo, ''''] \<rparr>"

text \<open>A Linux host on which \<open>distro\<close> answers three empty strings.\<close>

definition blank_linux_host :: host where
  "blank_linux_host =
     linux_host \<lparr> distro_lib_name := Inr '''', distro_lib_version := Inr '''',
                  distro_lib_id := Inr '''' \<rparr>"

text \<open>A macOS host on which every field of \<open>platform.mac_ver()\<close> is empty.\<close>

definition blank_darwin_host :: host where
  "blank_darwin_host = darwin_host \<lparr> platform_mac_ver := Inr ['''', '''', ''''] \<rparr>"

text \<open>A macOS host on which \<open>platform.architecture()\<close> raises.\<close>

definition no_architecture_host :: host where
  "no_architecture_host = darwin_host \<lparr> platform_architecture := Inl ''OSError'' \<rparr>"

text \<open>A Linux host on which \<open>distro.version()\<close> raises.\<close>

definition broken_distro_host :: host where
  "broken_distro_host = linux_host \<lparr> distro_lib_version := Inl ''FileNotFoundError'' \<rparr>"

subsection \<open>The OS-query calls of a run\<close>

text \<open>
  The exceptions that the library calls of \<open>get_system_info\<close> raise on a host, in the
  order of the calls: the architecture, the OS family, and then the calls of the branch of
  that family. This is the notion "one of the underlying OS-query calls raises" of the
  specification, written from its words and not from the method.
\<close>

definition raised :: "lib_error + 'a \<Rightarrow> lib_error list" where
  "raised q = (case q of Inl e \<Rightarrow> [e] | Inr _ \<Rightarrow> [])"

definition os_query_failures :: "'a host_scheme \<Rightarrow> lib_error list" where
  "os_query_failures h =
     raised (platform_architecture h) @ raised (platform_system h) @
     (if platform_system h = Inr ''Linux''
      then raised (distro_lib_name h) @ raised (distro_lib_version h) @ raised (distro_lib_id h)
      else []) @
     (if platform_system h = Inr ''Windows'' then raised (platform_win32_ver h) else []) @
     (if platform_system h = Inr ''Darwin'' then raised (platform_mac_ver h) else [])"

subsection \<open>The plugin and the objects of the host framework\<close>

text \<open>
  The fields that \<open>__init__\<close> sets on the plugin (\<open>self._name\<close>, \<open>self._version\<close>,
  \<open>self._description\<close>).
\<close>

record plugin =
  p_name :: string
  p_version :: string
  p_description :: string

definition init :: plugin where
  "init = \<lparr> p_name = ''Auto-GPT-Plugin-SystemInfo'', p_version = ''0.1.0'',
            p_description = ''This is system info plugin for Auto-GPT.'' \<rparr>"

text \<open>
  The methods receive objects of the host framework by reference (the prompt generator,
  lists of messages, the dictionary of arguments). The state of a run is the plugin and the
  store of those objects; a method takes the state and returns its result with the state
  after it.
\<close>

type_synonym ref = nat

record 'obj state =
  self :: plugin
  objects :: "ref \<Rightarrow> 'obj"

subsection \<open>\<open>post_prompt\<close>\<close>

text \<open>
  \<open>prompt.add_resource\<close> is a method of the host framework: it is the parameter
  \<open>add_resource\<close>, the change that one call makes to the prompt object. The method
  returns the reference it was given.
\<close>

definition post_prompt ::
  "(string \<Rightarrow> 'obj \<Rightarrow> 'obj) \<Rightarrow> 'a host_scheme \<Rightarrow> ref \<Rightarrow> 'obj state \<Rightarrow> (exn + ref) \<times> 'obj state" where
  "post_prompt add_resource h prompt \<sigma> =
     (case get_system_info h of
        Inl e \<Rightarrow> (Inl e, \<sigma>)
      | Inr os_info \<Rightarrow>
          if truthy (Some os_info) then
            (Inr prompt,
             \<sigma> \<lparr> objects := (objects \<sigma>)
                    (prompt := add_resource (''Shell commands executed on '' @ os_info)
                                 (objects \<sigma> prompt)) \<rparr>)
          else (Inr prompt, \<sigma>))"

text \<open>
  A prompt object to run \<open>post_prompt\<close> on: the list of its resources, to which
  \<open>add_resource\<close> appends.
\<close>

record prompt_generator =
  resources :: "string list"

definition append_resource :: "string \<Rightarrow> prompt_generator \<Rightarrow> prompt_generator" where
  "append_resource resource p = p \<lparr> resources := resources p @ [resource] \<rparr>"

definition fresh_state :: "prompt_generator state" where
  "fresh_state = \<lparr> self = init, objects = (\<lambda>r. \<lparr> resources = [] \<rparr>) \<rparr>"

subsection \<open>The stubs\<close>

text \<open>
  The capability checks return a constant. The hooks have the body \<open>pass\<close>: they return
  \<open>None\<close>, whatever the annotation of their result says. String arguments are values;
  messages, prompts and dictionaries are references into the store; \<open>temperature\<close> is a
  float, of which nothing is read.
\<close>

definition can_handle_post_prompt :: "'s \<Rightarrow> bool \<times> 's" where
  "can_handle_post_prompt \<sigma> = (True, \<sigma>)"

definition can_handle_on_response :: "'s \<Rightarrow> bool \<times> 's" where
  "can_handle_on_response \<sigma> = (False, \<sigma>)"

definition on_response :: "string \<Rightarrow> 'args \<Rightarrow> 'kwargs \<Rightarrow> 's \<Rightarrow> string option \<times> 's" where
  "on_response response args kwargs \<sigma> = (None, \<sigma>)"

definition can_handle_on_planning :: "'s \<Rightarrow> bool \<times> 's" where
  "can_handle_on_planning \<sigma> = (False, \<sigma>)"

definition on_planning :: "ref \<Rightarrow> ref \<Rightarrow> 's \<Rightarrow> string option \<times> 's" where
  "on_planning prompt messages \<sigma> = (None, \<sigma>)"

definition can_handle_post_planning :: "'s \<Rightarrow> bool \<times> 's" where
  "can_handle_post_planning \<sigma> = (False, \<sigma>)"

definition post_planning :: "string \<Rightarrow> 's \<Rightarrow> string option \<times> 's" where
  "post_planning response \<sigma> = (None, \<sigma>)"

definition can_handle_pre_instruction :: "'s \<Rightarrow> bool \<times> 's" where
  "can_handle_pre_instruction \<sigma> = (False, \<sigma>)"

definition pre_instruction :: "ref \<Rightarrow> 's \<Rightarrow> ref option \<times> 's" where
  "pre_instruction messages \<sigma> = (None, \<sigma>)"

definition can_handle_on_instruction :: "'s \<Rightarrow> bool \<times> 's" where
  "can_handle_on_instruction \<sigma> = (False, \<sigma>)"

definition on_instruction :: "ref \<Rightarrow> 's \<Rightarrow> string option \<times> 's" where
  "on_instruction messages \<sigma> = (None, \<sigma>)"

definition can_handle_post_instruction :: "'s \<Rightarrow> bool \<times> 's" where
  "can_handle_post_instruction \<sigma> = (False, \<sigma>)"

definition post_instruction :: "string \<Rightarrow> 's \<Rightarrow> string option \<times> 's" where
  "post_instruction response \<sigma> = (None, \<sigma>)"

definition can_handle_pre_command :: "'s \<Rightarrow> bool \<times> 's" where
  "can_handle_pre_command \<sigma> = (False, \<sigma>)"

definition pre_command :: "string \<Rightarrow> ref \<Rightarrow> 's \<Rightarrow> (string \<times> ref) option \<times> 's" where
  "pre_command command_name arguments \<sigma> = (None, \<sigma>)"

definition can_handle_post_command :: "'s \<Rightarrow> bool \<times> 's" where
  "can_handle_post_command \<sigma> = (False, \<sigma>)"

definition post_command :: "string \<Rightarrow> string \<Rightarrow> 's \<Rightarrow> string option \<times> 's" where
  "post_command command_name response \<sigma> = (None, \<sigma>)"

definition can_handle_chat_completion ::
  "ref \<Rightarrow> string \<Rightarrow> 'float \<Rightarrow> int \<Rightarrow> 's \<Rightarrow> bool \<times> 's" where
  "can_handle_chat_completion messages model temperature max_tokens \<sigma> = (False, \<sigma>)"

definition handle_chat_completion ::
  "ref \<Rightarrow> string \<Rightarrow> 'float \<Rightarrow> int \<Rightarrow> 's \<Rightarrow> string option \<times> 's" where
  "handle_chat_completion messages model temperature max_tokens \<sigma> = (None, \<sigma>)"

subsection \<open>One run of the method, call by call\<close>

text \<open>
  A host answers each query once and for all. In a run the method is called on the plugin,
  in one state of the program, and each call that it makes is answered when it is made:
  \<open>platform.system()\<close> is called at the head of each of the three blocks, and
  \<open>system_answers r k\<close> is what call number \<open>k\<close> of it gets in the run \<open>r\<close>. The
  blocks are those of \<open>get_distro_info\<close>, \<open>get_win_version\<close> and \<open>get_mac_version\<close>,
  taken as functions of the answers.
\<close>

record run =
  architecture_answer :: "lib_error + string list"
  system_answers :: "nat \<Rightarrow> lib_error + string"
  name_answer :: "lib_error + string"
  version_answer :: "lib_error + string"
  id_answer :: "lib_error + string"
  win32_ver_answer :: "lib_error + string list"
  mac_ver_answer :: "lib_error + string list"

definition distro_block ::
  "lib_error + string \<Rightarrow> lib_error + string \<Rightarrow> lib_error + string \<Rightarrow> lib_error + string
     \<Rightarrow> exn + string option" where
  "distro_block sys name version ident =
     call sys (\<lambda>s.
       if s = ''Linux'' then
         call name (\<lambda>distro_name.
         call version (\<lambda>distro_version.
         call ident (\<lambda>distro_id.
           Inr (Some (distro_name @ '' '' @ distro_version @ '' ('' @ distro_id @ '')'')))))
       else Inr None)"

definition win_block :: "lib_error + string \<Rightarrow> lib_error + string list \<Rightarrow> exn + string option" where
  "win_block sys win32 =
     call sys (\<lambda>s.
       if s = ''Windows'' then
         call win32 (\<lambda>win_ver.
         seq (tuple_index win_ver 0) (\<lambda>w0.
         seq (tuple_index win_ver 1) (\<lambda>w1.
         seq (tuple_index win_ver 4) (\<lambda>w4.
           Inr (Some (w0 @ '' '' @ w1 @ '' '' @ w4))))))
       else Inr None)"

definition mac_block :: "lib_error + string \<Rightarrow> lib_error + string list \<Rightarrow> exn + string option" where
  "mac_block sys mac =
     call sys (\<lambda>s.
       if s = ''Darwin'' then
         call mac (\<lambda>mac_ver.
         seq (tuple_index mac_ver 0) (\<lambda>m0.
         seq (tuple_index mac_ver 2) (\<lambda>m2.
           Inr (Some (m0 @ '' '' @ m2)))))
       else Inr None)"

text \<open>
  The method as the class has it: it is given the state, in which \<open>self\<close> is the plugin,
  and returns its result with the state after it.
\<close>

definition get_system_info_run :: "run \<Rightarrow> 'obj state \<Rightarrow> (exn + string) \<times> 'obj state" where
  "get_system_info_run r \<sigma> =
     (call (architecture_answer r) (\<lambda>t.
      seq (tuple_index t 0) (\<lambda>arch.
      seq (distro_block (system_answers r 0) (name_answer r) (version_answer r) (id_answer r))
        (\<lambda>distro_info.
      seq (win_block (system_answers r 1) (win32_ver_answer r)) (\<lambda>win_version.
      seq (mac_block (system_answers r 2) (mac_ver_answer r)) (\<lambda>mac_version.
        return_local (build_os_info arch distro_info win_version mac_version)))))),
      \<sigma>)"

text \<open>The run on a host: every call of \<open>platform.system()\<close> gets the answer of the host.\<close>

definition run_on :: "'a host_scheme \<Rightarrow> run" where
  "run_on h =
     \<lparr> architecture_answer = platform_architecture h,
       system_answers = (\<lambda>k. platform_system h),
       name_answer = distro_lib_name h,
       version_answer = distro_lib_version h,
       id_answer = distro_lib_id h,
       win32_ver_answer = platform_win32_ver h,
       mac_ver_answer = platform_mac_ver h \<rparr>"

definition linux_run :: run where
  "linux_run = run_on linux_host"

text \<open>
  A run with the answers of \<open>linux_run\<close> to the calls that the method makes, in which
  \<open>platform.system()\<close> would answer "Darwin" from the fourth call on.
\<close>

definition linux_then_darwin_run :: run where
  "linux_then_darwin_run =
     linux_run \<lparr> system_answers := (\<lambda>k. if k < 3 then Inr ''Linux'' else Inr ''Darwin'') \<rparr>"

text \<open>A state other than \<open>fresh_state\<close>: the plugin is renamed and the prompts hold a resource.\<close>

definition busy_state :: "prompt_generator state" where
  "busy_state =
     \<lparr> self = init \<lparr> p_name := ''renamed'' \<rparr>,
       objects = (\<lambda>r. \<lparr> resources = [''Internet access''] \<rparr>) \<rparr>"

section \<open>What \<open>get_system_info\<close> computes\<close>

lemmas get_system_info_defs =
  get_system_info_def get_distro_info_def get_win_version_def get_mac_version_def
  build_os_info_def assign_if_def return_local_def truthy_def tuple_index_def
  seq_def call_def

subsection \<open>One lemma for each family\<close>

lemma get_system_info_linux:
  assumes "platform_architecture h = Inr (arch # rest)"
    and "platform_system h = Inr ''Linux''"
    and "distro_lib_name h = Inr n"
    and "distro_lib_version h = Inr v"
    and "distro_lib_id h = Inr i"
  shows "get_system_info h = Inr (''Linux '' @ arch @ '' '' @ n @ '' '' @ v @ '' ('' @ i @ '')'')"
  using assms by (simp add: get_system_info_defs)

lemma get_system_info_darwin:
  assumes "platform_architecture h = Inr (arch # rest)"
    and "platform_system h = Inr ''Darwin''"
    and "platform_mac_ver h = Inr (m0 # m1 # m2 # rest2)"
  shows "get_system_info h = Inr (''macOS '' @ m0 @ '' '' @ m2)"
  using assms by (simp add: get_system_info_defs)

text \<open>
  With the four fields of \<open>platform.win32_ver()\<close> the Windows branch never gets to its
  string; with five or more it does.
\<close>

lemma get_system_info_windows_four_fields:
  assumes "platform_architecture h = Inr (arch # rest)"
    and "platform_system h = Inr ''Windows''"
    and "platform_win32_ver h = Inr [release, version, csd, ptype]"
  shows "get_system_info h = Inl IndexError"
  using assms by (simp add: get_system_info_defs)

lemma get_system_info_windows_five_fields:
  assumes "platform_architecture h = Inr (arch # rest)"
    and "platform_system h = Inr ''Windows''"
    and "platform_win32_ver h = Inr (w0 # w1 # w2 # w3 # w4 # rest2)"
  shows "get_system_info h = Inr (''Windows '' @ w0 @ '' '' @ w1 @ '' '' @ w4)"
  using assms by (simp add: get_system_info_defs)

lemma get_system_info_unrecognized:
  assumes "platform_architecture h = Inr (arch # rest)"
    and "platform_system h = Inr s"
    and "s \<noteq> ''Linux''" and "s \<noteq> ''Windows''" and "s \<noteq> ''Darwin''"
  shows "get_system_info h = Inl UnboundLocalError"
  using assms by (simp add: get_system_info_defs)

lemma get_system_info_unrecognized_raises:
  assumes "platform_system h = Inr s"
    and "s \<noteq> ''Linux''" and "s \<noteq> ''Windows''" and "s \<noteq> ''Darwin''"
  shows "isl (get_system_info h)"
  using assms by (simp add: get_system_info_defs split: sum.splits)

text \<open>Every template has a space in it: a returned string is never empty.\<close>

lemma get_system_info_nonempty:
  "get_system_info h = Inr r \<Longrightarrow> r \<noteq> []"
  by (auto simp add: get_system_info_defs split: sum.splits if_splits option.splits)

subsection \<open>The method on the example hosts\<close>

lemma linux_host_info:
  "get_system_info linux_host = Inr ''Linux 64bit Ubuntu 22.04 (ubuntu)''"
  by (simp add: linux_host_def get_system_info_defs)

lemma darwin_host_info: "get_system_info darwin_host = Inr ''macOS 14.0 arm64''"
  by (simp add: darwin_host_def get_system_info_defs)

lemma freebsd_host_info: "get_system_info freebsd_host = Inl UnboundLocalError"
  by (simp add: freebsd_host_def get_system_info_defs)

lemma broken_distro_host_info:
  "get_system_info broken_distro_host = Inl (LibraryError ''FileNotFoundError'')"
  by (simp add: broken_distro_host_def linux_host_def get_system_info_defs)

subsection \<open>The architecture is read first\<close>

lemma get_system_info_no_architecture:
  "platform_architecture h = Inl e \<Longrightarrow> get_system_info h = Inl (LibraryError e)"
  by (simp add: get_system_info_def call_def)

lemma get_system_info_empty_architecture:
  "platform_architecture h = Inr [] \<Longrightarrow> get_system_info h = Inl IndexError"
  by (simp add: get_system_info_def call_def seq_def tuple_index_def)

subsection \<open>The blocks and the assignment of \<open>os_info\<close>\<close>

lemma blocks_on_linux:
  assumes "platform_system h = Inr ''Linux''"
    and "get_distro_info h = Inr d" and "get_win_version h = Inr w"
    and "get_mac_version h = Inr m"
  shows "(\<exists>v. d = Some v \<and> v \<noteq> []) \<and> w = None \<and> m = None"
proof -
  from assms(1,3) have "w = None" by (simp add: get_win_version_def call_def)
  moreover from assms(1,4) have "m = None" by (simp add: get_mac_version_def call_def)
  moreover from assms(1,2) have "\<exists>v. d = Some v \<and> v \<noteq> []"
    by (auto simp add: get_distro_info_def call_def split: sum.splits)
  ultimately show ?thesis by blast
qed

lemma blocks_on_windows:
  assumes "platform_system h = Inr ''Windows''"
    and "get_distro_info h = Inr d" and "get_win_version h = Inr w"
    and "get_mac_version h = Inr m"
  shows "d = None \<and> (\<exists>v. w = Some v \<and> v \<noteq> []) \<and> m = None"
proof -
  from assms(1,2) have "d = None" by (simp add: get_distro_info_def call_def)
  moreover from assms(1,4) have "m = None" by (simp add: get_mac_version_def call_def)
  moreover from assms(1,3) have "\<exists>v. w = Some v \<and> v \<noteq> []"
    by (auto simp add: get_win_version_def call_def seq_def split: sum.splits)
  ultimately show ?thesis by blast
qed

lemma blocks_on_darwin:
  assumes "platform_system h = Inr ''Darwin''"
    and "get_distro_info h = Inr d" and "get_win_version h = Inr w"
    and "get_mac_version h = Inr m"
  shows "d = None \<and> w = None \<and> (\<exists>v. m = Some v \<and> v \<noteq> [])"
proof -
  from assms(1,2) have "d = None" by (simp add: get_distro_info_def call_def)
  moreover from assms(1,3) have "w = None" by (simp add: get_win_version_def call_def)
  moreover from assms(1,4) have "\<exists>v. m = Some v \<and> v \<noteq> []"
    by (auto simp add: get_mac_version_def call_def seq_def split: sum.splits)
  ultimately show ?thesis by blast
qed


lemma branch_assigns:
  assumes "platform_system h = Inr s"
    and "s = ''Linux'' \<or> s = ''Windows'' \<or> s = ''Darwin''"
    and "get_distro_info h = Inr d" and "get_win_version h = Inr w"
    and "get_mac_version h = Inr m"
  shows "\<exists>v. (if s = ''Linux'' then d else if s = ''Windows'' then w else m) = Some v
           \<and> build_os_info arch d w m =
               Some ((if s = ''Linux'' then ''Linux '' @ arch @ '' ''
                      else if s = ''Windows'' then ''Windows '' else ''macOS '') @ v)"
proof -
  consider "s = ''Linux''" | "s = ''Windows''" | "s = ''Darwin''"
    using assms(2) by blast
  then show ?thesis
  proof cases
    case 1
    with assms have "(\<exists>v. d = Some v \<and> v \<noteq> []) \<and> w = None \<and> m = None"
      using blocks_on_linux [of h d w m] by simp
    with 1 show ?thesis
      by (auto simp add: build_os_info_def assign_if_def truthy_def)
  next
    case 2
    with assms have "d = None \<and> (\<exists>v. w = Some v \<and> v \<noteq> []) \<and> m = None"
      using blocks_on_windows [of h d w m] by simp
    with 2 show ?thesis
      by (auto simp add: build_os_info_def assign_if_def truthy_def)
  next
    case 3
    with assms have "d = None \<and> w = None \<and> (\<exists>v. m = Some v \<and> v \<noteq> [])"
      using blocks_on_darwin [of h d w m] by simp
    with 3 show ?thesis
      by (auto simp add: build_os_info_def assign_if_def truthy_def)
  qed
qed

lemma get_system_info_returns:
  assumes "get_system_info h = Inr r"
  shows "\<exists>arch d w m. get_distro_info h = Inr d \<and> get_win_version h = Inr w
           \<and> get_mac_version h = Inr m \<and> build_os_info arch d w m = Some r"
  using assms
  by (auto simp add: get_system_info_def call_def seq_def return_local_def
      split: sum.splits option.splits)

lemma get_system_info_unbound:
  assumes "get_system_info h = Inl UnboundLocalError"
  shows "\<exists>arch d w m. get_distro_info h = Inr d \<and> get_win_version h = Inr w
           \<and> get_mac_version h = Inr m \<and> build_os_info arch d w m = None"
proof -
  have d: "get_distro_info h \<noteq> Inl UnboundLocalError"
    by (simp add: get_distro_info_def call_def split: sum.splits)
  have w: "get_win_version h \<noteq> Inl UnboundLocalError"
    by (simp add: get_win_version_def call_def seq_def tuple_index_def split: sum.splits)
  have m: "get_mac_version h \<noteq> Inl UnboundLocalError"
    by (simp add: get_mac_version_def call_def seq_def tuple_index_def split: sum.splits)
  from assms d w m show ?thesis
    by (auto simp add: get_system_info_def call_def seq_def return_local_def tuple_index_def
        split: sum.splits option.splits if_splits)
qed

lemma result_of_family:
  assumes "platform_system h = Inr s"
    and "s = ''Linux'' \<or> s = ''Windows'' \<or> s = ''Darwin''"
    and "get_system_info h = Inr r"
  shows "prefix (if s = ''Linux'' then ''Linux ''
                 else if s = ''Windows'' then ''Windows '' else ''macOS '') r"
proof -
  from assms(3) obtain arch d w m where b: "get_distro_info h = Inr d"
      "get_win_version h = Inr w" "get_mac_version h = Inr m"
    and r: "build_os_info arch d w m = Some r"
    using get_system_info_returns by blast
  from branch_assigns [OF assms(1,2) b, of arch] r obtain v where
    "r = (if s = ''Linux'' then ''Linux '' @ arch @ '' ''
          else if s = ''Windows'' then ''Windows '' else ''macOS '') @ v"
    by auto
  then show ?thesis by (auto simp add: prefix_def)
qed

lemma never_unbound_on_family:
  assumes "platform_system h = Inr s"
    and "s = ''Linux'' \<or> s = ''Windows'' \<or> s = ''Darwin''"
  shows "get_system_info h \<noteq> Inl UnboundLocalError"
proof
  assume "get_system_info h = Inl UnboundLocalError"
  then obtain arch d w m where b: "get_distro_info h = Inr d"
      "get_win_version h = Inr w" "get_mac_version h = Inr m"
    and r: "build_os_info arch d w m = None"
    using get_system_info_unbound by blast
  from branch_assigns [OF assms b, of arch] r show False by auto
qed

lemma helper_truthy_on_family:
  assumes "platform_system h = Inr s"
  shows "(\<forall>v. get_distro_info h = Inr v \<longrightarrow> truthy v = (s = ''Linux''))
       \<and> (\<forall>v. get_win_version h = Inr v \<longrightarrow> truthy v = (s = ''Windows''))
       \<and> (\<forall>v. get_mac_version h = Inr v \<longrightarrow> truthy v = (s = ''Darwin''))"
proof (intro conjI allI impI)
  fix v assume "get_distro_info h = Inr v"
  with assms show "truthy v = (s = ''Linux'')"
    by (auto simp add: get_distro_info_def call_def truthy_def split: sum.splits if_splits)
next
  fix v assume "get_win_version h = Inr v"
  with assms show "truthy v = (s = ''Windows'')"
    by (auto simp add: get_win_version_def call_def seq_def truthy_def
        split: sum.splits if_splits)
next
  fix v assume "get_mac_version h = Inr v"
  with assms show "truthy v = (s = ''Darwin'')"
    by (auto simp add: get_mac_version_def call_def seq_def truthy_def
        split: sum.splits if_splits)
qed

subsection \<open>The run of the method\<close>

text \<open>On a host, where the three calls get one answer, the run is \<open>get_system_info\<close>.\<close>

lemma get_system_info_run_on:
  "get_system_info_run (run_on h) \<sigma> = (get_system_info h, \<sigma>)"
  by (simp add: get_system_info_run_def run_on_def get_system_info_def get_distro_info_def
      get_win_version_def get_mac_version_def distro_block_def win_block_def mac_block_def)

section \<open>The claims of the specification\<close>

subsection \<open>Windows\<close>

text \<open>
  C1. On a Windows host \<open>get_system_info\<close> should return a string that holds "Windows"
  and the fields of the tuple of \<open>platform.win32_ver()\<close>. On the host \<open>windows_host\<close>,
  whose tuple has the four fields \<open>(release, version, csd, ptype)\<close> that
  \<open>platform.win32_ver()\<close> returns, the read \<open>win_ver[4]\<close> is out of range: the method
  raises \<open>IndexError\<close> and returns no string.
\<close>

theorem get_system_info_windows_host_raises:
  "get_system_info windows_host = Inl IndexError"
  by (simp add: windows_host_def get_system_info_defs)

subsection \<open>An unrecognized family\<close>

text \<open>
  C2. On a host whose OS family is none of "Linux", "Windows" and "Darwin",
  \<open>get_system_info\<close> returns no string. None of the three \<open>if\<close> statements assigns
  \<open>os_info\<close>, so once the architecture has been read \<open>return os_info\<close> raises
  \<open>UnboundLocalError\<close>: the result is left without a value.
\<close>

theorem unrecognized_family_no_string:
  assumes "platform_system h = Inr s"
    and "s \<noteq> ''Linux''" and "s \<noteq> ''Windows''" and "s \<noteq> ''Darwin''"
  shows "isl (get_system_info h) \<and>
         (\<forall>arch rest. platform_architecture h = Inr (arch # rest) \<longrightarrow>
            get_system_info h = Inl UnboundLocalError)"
  using assms get_system_info_unrecognized_raises [of h s]
    get_system_info_unrecognized [of h _ _ s]
  by blast

theorem unrecognized_family_no_string_witness:
  "platform_system freebsd_host = Inr ''FreeBSD'' \<and>
   platform_architecture freebsd_host = Inr [''64bit'', ''ELF''] \<and>
   isl (get_system_info freebsd_host) \<and>
   get_system_info freebsd_host = Inl UnboundLocalError"
proof -
  have s: "platform_system freebsd_host = Inr ''FreeBSD''"
    and a: "platform_architecture freebsd_host = Inr [''64bit'', ''ELF'']"
    by (simp_all add: freebsd_host_def)
  from unrecognized_family_no_string [OF s] a s show ?thesis by simp
qed

subsection \<open>Linux\<close>

text \<open>
  C3. On a Linux host on which the queries answer, \<open>get_system_info\<close> returns a string
  that contains "Linux", the architecture string \<open>platform.architecture()[0]\<close>, and the
  name, the version and the id of the distribution. The string is
  \<open>Linux <arch> <name> <version> (<id>)\<close>.
\<close>

theorem linux_info:
  assumes "platform_architecture h = Inr (arch # rest)"
    and "platform_system h = Inr ''Linux''"
    and "distro_lib_name h = Inr n"
    and "distro_lib_version h = Inr v"
    and "distro_lib_id h = Inr i"
  shows "\<exists>r. get_system_info h = Inr r
           \<and> r = ''Linux '' @ arch @ '' '' @ n @ '' '' @ v @ '' ('' @ i @ '')''
           \<and> sublist ''Linux'' r \<and> sublist arch r
           \<and> sublist n r \<and> sublist v r \<and> sublist i r"
proof -
  let ?r = "''Linux '' @ arch @ '' '' @ n @ '' '' @ v @ '' ('' @ i @ '')''"
  have "get_system_info h = Inr ?r"
    using assms by (rule get_system_info_linux)
  moreover have "sublist ''Linux'' ?r"
    using sublist_append_rightI
      [of "''Linux''" "'' '' @ arch @ '' '' @ n @ '' '' @ v @ '' ('' @ i @ '')''"]
    by simp
  moreover have "sublist arch ?r"
    by (rule sublist_appendI)
  moreover have "sublist n ?r"
    using sublist_appendI [of n "''Linux '' @ arch @ '' ''" "'' '' @ v @ '' ('' @ i @ '')''"]
    by simp
  moreover have "sublist v ?r"
    using sublist_appendI [of v "''Linux '' @ arch @ '' '' @ n @ '' ''" "'' ('' @ i @ '')''"]
    by simp
  moreover have "sublist i ?r"
    using sublist_appendI [of i "''Linux '' @ arch @ '' '' @ n @ '' '' @ v @ '' (''" "'')''"]
    by simp
  ultimately show ?thesis by blast
qed

theorem linux_info_witness:
  "\<exists>r. get_system_info linux_host = Inr r
      \<and> r = ''Linux '' @ ''64bit'' @ '' '' @ ''Ubuntu'' @ '' '' @ ''22.04'' @ '' ('' @ ''ubuntu'' @ '')''
      \<and> sublist ''Linux'' r \<and> sublist ''64bit'' r
      \<and> sublist ''Ubuntu'' r \<and> sublist ''22.04'' r \<and> sublist ''ubuntu'' r"
  by (rule linux_info [of linux_host "''64bit''" "[''ELF'']" "''Ubuntu''" "''22.04''" "''ubuntu''"])
     (simp_all add: linux_host_def)

subsection \<open>macOS\<close>

text \<open>
  C4. On a macOS host (\<open>platform.system()\<close> is "Darwin") on which the queries answer,
  \<open>get_system_info\<close> returns a string that contains "macOS" and the fields that the
  method takes from \<open>platform.mac_ver()\<close>: the field 0, the release, and the field 2, the
  machine. The string is \<open>macOS <release> <machine>\<close>.
\<close>

theorem darwin_info:
  assumes "platform_architecture h = Inr (arch # rest)"
    and "platform_system h = Inr ''Darwin''"
    and "platform_mac_ver h = Inr (release # versioninfo # machine # rest2)"
  shows "\<exists>r. get_system_info h = Inr r \<and> r = ''macOS '' @ release @ '' '' @ machine
           \<and> sublist ''macOS'' r \<and> sublist release r \<and> sublist machine r"
proof -
  let ?r = "''macOS '' @ release @ '' '' @ machine"
  have "get_system_info h = Inr ?r"
    using assms by (rule get_system_info_darwin)
  moreover have "sublist ''macOS'' ?r"
    using sublist_append_rightI [of "''macOS''" "'' '' @ release @ '' '' @ machine"] by simp
  moreover have "sublist release ?r"
    by (rule sublist_appendI)
  moreover have "sublist machine ?r"
    using sublist_append_leftI [of machine "''macOS '' @ release @ '' ''"] by simp
  ultimately show ?thesis by blast
qed

theorem darwin_info_witness:
  "\<exists>r. get_system_info darwin_host = Inr r \<and> r = ''macOS '' @ ''14.0'' @ '' '' @ ''arm64''
      \<and> sublist ''macOS'' r \<and> sublist ''14.0'' r \<and> sublist ''arm64'' r"
  by (rule darwin_info
        [of darwin_host "''64bit''" "['''']" "''14.0''" no_versioninfo "''arm64''" "[]"])
     (simp_all add: darwin_host_def)

subsection \<open>What the string is assembled from\<close>

text \<open>
  C5, as stated: for every recognized family the string is assembled from the architecture
  bit-width, the name of the family and the fields of the family, so that the bit-width
  appears in it on Windows and macOS as on Linux. It does not on \<open>darwin_host\<close>: the
  architecture is "64bit", and the string returned does not contain it.
\<close>

theorem architecture_absent_on_darwin_host:
  "platform_architecture darwin_host = Inr [''64bit'', ''''] \<and>
   get_system_info darwin_host = Inr ''macOS 14.0 arm64'' \<and>
   \<not> sublist ''64bit'' ''macOS 14.0 arm64''"
  by (simp add: darwin_host_info sublist_Cons_right) (simp add: darwin_host_def)

text \<open>
  C5, amended: the architecture is read on every host, before the family is asked for (a
  failure of that read leaves the method whatever the family), and only the Linux template
  has a place for it. On Linux the string is assembled from the word "Linux", the architecture
  bit-width and the name, version and id of the distribution. On macOS it is assembled from
  the word "macOS" and the fields 0 and 2 of \<open>platform.mac_ver()\<close>, and from nothing
  else: whatever the architecture is, the string is the same.
\<close>

theorem os_info_assembly:
  "(\<forall>e. platform_architecture h = Inl e \<longrightarrow> get_system_info h = Inl (LibraryError e))
   \<and> (platform_architecture h = Inr [] \<longrightarrow> get_system_info h = Inl IndexError)
   \<and> (\<forall>arch rest. platform_architecture h = Inr (arch # rest) \<longrightarrow>
        (platform_system h = Inr ''Linux'' \<and> distro_lib_name h = Inr n \<and>
         distro_lib_version h = Inr v \<and> distro_lib_id h = Inr i \<longrightarrow>
           get_system_info h =
             Inr (''Linux '' @ arch @ '' '' @ n @ '' '' @ v @ '' ('' @ i @ '')''))
      \<and> (platform_system h = Inr ''Darwin'' \<and>
         platform_mac_ver h = Inr (m0 # m1 # m2 # rest2) \<longrightarrow>
           get_system_info h = Inr (''macOS '' @ m0 @ '' '' @ m2)))"
  using get_system_info_no_architecture [of h] get_system_info_empty_architecture [of h]
    get_system_info_linux [of h _ _ n v i]
    get_system_info_darwin [of h _ _ m0 m1 m2 rest2]
  by blast

theorem os_info_assembly_witness:
  "get_system_info no_architecture_host = Inl (LibraryError ''OSError'')
   \<and> get_system_info linux_host =
     Inr (''Linux '' @ ''64bit'' @ '' '' @ ''Ubuntu'' @ '' '' @ ''22.04'' @ '' ('' @ ''ubuntu'' @ '')'')
   \<and> get_system_info darwin_host = Inr (''macOS '' @ ''14.0'' @ '' '' @ ''arm64'')"
proof -
  have a: "platform_architecture no_architecture_host = Inl ''OSError''"
    "platform_system no_architecture_host = Inr ''Darwin''"
    by (simp_all add: no_architecture_host_def darwin_host_def)
  have l: "platform_architecture linux_host = Inr [''64bit'', ''ELF'']"
    "platform_system linux_host = Inr ''Linux''" "distro_lib_name linux_host = Inr ''Ubuntu''"
    "distro_lib_version linux_host = Inr ''22.04''" "distro_lib_id linux_host = Inr ''ubuntu''"
    by (simp_all add: linux_host_def)
  have d: "platform_architecture darwin_host = Inr [''64bit'', '''']"
    "platform_system darwin_host = Inr ''Darwin''"
    "platform_mac_ver darwin_host = Inr [''14.0'', no_versioninfo, ''arm64'']"
    by (simp_all add: darwin_host_def)
  from os_info_assembly [of no_architecture_host] a
  have "get_system_info no_architecture_host = Inl (LibraryError ''OSError'')"
    by blast
  moreover
  from os_info_assembly [of linux_host "''Ubuntu''" "''22.04''" "''ubuntu''"] l
  have "get_system_info linux_host =
     Inr (''Linux '' @ ''64bit'' @ '' '' @ ''Ubuntu'' @ '' '' @ ''22.04'' @ '' ('' @ ''ubuntu'' @ '')'')"
    by blast
  moreover
  from os_info_assembly [of darwin_host _ _ _ "''14.0''" no_versioninfo "''arm64''" "[]"] d
  have "get_system_info darwin_host = Inr (''macOS '' @ ''14.0'' @ '' '' @ ''arm64'')"
    by blast
  ultimately show ?thesis by blast
qed

subsection \<open>The stubs\<close>

text \<open>
  C6. Every method of the interface other than \<open>post_prompt\<close> and \<open>get_system_info\<close>
  returns a constant or does nothing: \<open>can_handle_post_prompt\<close> returns \<open>True\<close>, the
  nine other capability checks return \<open>False\<close>, and the nine hooks return \<open>None\<close>. None
  of them changes the plugin or an object it was given: the state after the call is the
  state before it.
\<close>

theorem stubs_do_nothing:
  "can_handle_post_prompt \<sigma> = (True, \<sigma>)
   \<and> can_handle_on_response \<sigma> = (False, \<sigma>)
   \<and> can_handle_on_planning \<sigma> = (False, \<sigma>)
   \<and> can_handle_post_planning \<sigma> = (False, \<sigma>)
   \<and> can_handle_pre_instruction \<sigma> = (False, \<sigma>)
   \<and> can_handle_on_instruction \<sigma> = (False, \<sigma>)
   \<and> can_handle_post_instruction \<sigma> = (False, \<sigma>)
   \<and> can_handle_pre_command \<sigma> = (False, \<sigma>)
   \<and> can_handle_post_command \<sigma> = (False, \<sigma>)
   \<and> can_handle_chat_completion messages model temperature max_tokens \<sigma> = (False, \<sigma>)
   \<and> on_response response args kwargs \<sigma> = (None, \<sigma>)
   \<and> on_planning prompt messages \<sigma> = (None, \<sigma>)
   \<and> post_planning response \<sigma> = (None, \<sigma>)
   \<and> pre_instruction messages \<sigma> = (None, \<sigma>)
   \<and> on_instruction messages \<sigma> = (None, \<sigma>)
   \<and> post_instruction response \<sigma> = (None, \<sigma>)
   \<and> pre_command command_name arguments \<sigma> = (None, \<sigma>)
   \<and> post_command command_name response \<sigma> = (None, \<sigma>)
   \<and> handle_chat_completion messages model temperature max_tokens \<sigma> = (None, \<sigma>)"
  unfolding can_handle_post_prompt_def can_handle_on_response_def can_handle_on_planning_def
    can_handle_post_planning_def can_handle_pre_instruction_def can_handle_on_instruction_def
    can_handle_post_instruction_def can_handle_pre_command_def can_handle_post_command_def
    can_handle_chat_completion_def on_response_def on_planning_def post_planning_def
    pre_instruction_def on_instruction_def post_instruction_def pre_command_def
    post_command_def handle_chat_completion_def
  by simp

subsection \<open>\<open>post_prompt\<close>\<close>

text \<open>
  C7, as stated: for every prompt object \<open>post_prompt\<close> returns the prompt it was given.
  On \<open>broken_distro_host\<close>, where \<open>distro.version()\<close> raises, it returns nothing:
  \<open>post_prompt\<close> has no \<open>try\<close> either, and the exception leaves it too.
\<close>

theorem post_prompt_raises_on_broken_distro_host:
  "post_prompt append_resource broken_distro_host 0 fresh_state =
     (Inl (LibraryError ''FileNotFoundError''), fresh_state)"
  by (simp add: post_prompt_def broken_distro_host_info)

text \<open>
  C7, amended: on a host on which \<open>get_system_info\<close> returns a string, that string is
  not empty, and \<open>post_prompt\<close> returns the prompt object it was given after one call of
  \<open>add_resource\<close> on it, with "Shell commands executed on " followed by the string;
  the plugin and every other object are as before. On a host on which
  \<open>get_system_info\<close> raises, \<open>post_prompt\<close> raises the same exception and changes
  nothing.
\<close>

theorem post_prompt_effect:
  "(\<forall>os_info. get_system_info h = Inr os_info \<longrightarrow>
      post_prompt add_resource h prompt \<sigma> =
        (Inr prompt,
         \<sigma> \<lparr> objects := (objects \<sigma>)
                (prompt := add_resource (''Shell commands executed on '' @ os_info)
                             (objects \<sigma> prompt)) \<rparr>))
   \<and> (\<forall>e. get_system_info h = Inl e \<longrightarrow>
          post_prompt add_resource h prompt \<sigma> = (Inl e, \<sigma>))"
proof (intro conjI allI impI)
  fix os_info assume r: "get_system_info h = Inr os_info"
  then have "os_info \<noteq> []" by (rule get_system_info_nonempty)
  with r show "post_prompt add_resource h prompt \<sigma> =
        (Inr prompt,
         \<sigma> \<lparr> objects := (objects \<sigma>)
                (prompt := add_resource (''Shell commands executed on '' @ os_info)
                             (objects \<sigma> prompt)) \<rparr>)"
    by (simp add: post_prompt_def truthy_def)
next
  fix e assume "get_system_info h = Inl e"
  then show "post_prompt add_resource h prompt \<sigma> = (Inl e, \<sigma>)"
    by (simp add: post_prompt_def)
qed

theorem post_prompt_effect_witness:
  "post_prompt append_resource linux_host 0 fresh_state =
     (Inr 0,
      fresh_state \<lparr> objects := (objects fresh_state)
         (0 := append_resource
                 (''Shell commands executed on '' @ ''Linux 64bit Ubuntu 22.04 (ubuntu)'')
                 (objects fresh_state 0)) \<rparr>)
   \<and> post_prompt append_resource freebsd_host 0 fresh_state =
       (Inl UnboundLocalError, fresh_state)"
  using post_prompt_effect [of linux_host append_resource 0 fresh_state]
    post_prompt_effect [of freebsd_host append_resource 0 fresh_state]
    linux_host_info freebsd_host_info
  by blast

subsection \<open>Exceptions\<close>

text \<open>
  C8, as stated: \<open>get_system_info\<close> raises if and only if one of the OS-query calls
  raises. On \<open>freebsd_host\<close> no query raises, and the method does.
\<close>

theorem raises_without_query_failure:
  "os_query_failures freebsd_host = [] \<and> get_system_info freebsd_host = Inl UnboundLocalError"
  by (simp add: freebsd_host_info) (simp add: os_query_failures_def raised_def freebsd_host_def)

lemma first_query_failure_propagates:
  assumes "platform_architecture h \<noteq> Inr []"
    and "os_query_failures h = e # es"
  shows "get_system_info h = Inl (LibraryError e)"
proof (cases "platform_architecture h")
  case (Inl a)
  with assms show ?thesis
    by (simp add: os_query_failures_def raised_def get_system_info_def call_def)
next
  case (Inr t)
  with assms(1) obtain arch rest where t: "t = arch # rest" by (cases t) auto
  show ?thesis
  proof (cases "platform_system h")
    case (Inl a)
    with assms Inr t show ?thesis
      by (simp add: os_query_failures_def raised_def get_system_info_defs)
  next
    case s: (Inr s)
    with assms Inr t show ?thesis
      by (auto simp add: os_query_failures_def raised_def get_system_info_defs
          split: sum.splits if_splits)
  qed
qed

text \<open>
  C8, amended: \<open>get_system_info\<close> catches nothing. When a query call that it makes
  raises, the exception of the first such call leaves the method unchanged. It also raises
  where no query does: on a host that is not Windows, when no query raises, the method
  returns a string on Linux and macOS and raises \<open>UnboundLocalError\<close> on every other
  family. The tuples are taken to have the fields that the method reads:
  \<open>platform.architecture()\<close> a first one, \<open>platform.mac_ver()\<close> three.
\<close>

theorem exceptions_of_get_system_info:
  assumes "platform_architecture h \<noteq> Inr []"
  shows "(\<forall>e es. os_query_failures h = e # es \<longrightarrow> get_system_info h = Inl (LibraryError e))
       \<and> (os_query_failures h = [] \<and> platform_system h \<noteq> Inr ''Windows'' \<and>
          (\<forall>t. platform_mac_ver h = Inr t \<longrightarrow> 3 \<le> length t) \<longrightarrow>
            (if platform_system h = Inr ''Linux'' \<or> platform_system h = Inr ''Darwin''
             then \<not> isl (get_system_info h)
             else get_system_info h = Inl UnboundLocalError))"
proof (intro conjI allI impI)
  fix e es assume "os_query_failures h = e # es"
  with assms show "get_system_info h = Inl (LibraryError e)"
    by (rule first_query_failure_propagates)
next
  assume a: "os_query_failures h = [] \<and> platform_system h \<noteq> Inr ''Windows'' \<and>
          (\<forall>t. platform_mac_ver h = Inr t \<longrightarrow> 3 \<le> length t)"
  then obtain t s where t: "platform_architecture h = Inr t" and s: "platform_system h = Inr s"
    by (auto simp add: os_query_failures_def raised_def split: sum.splits)
  with assms obtain arch rest where ar: "platform_architecture h = Inr (arch # rest)"
    by (cases t) auto
  show "if platform_system h = Inr ''Linux'' \<or> platform_system h = Inr ''Darwin''
             then \<not> isl (get_system_info h)
             else get_system_info h = Inl UnboundLocalError"
    using a ar s
    by (auto simp add: os_query_failures_def raised_def get_system_info_defs
          split: sum.splits if_splits)
qed

theorem exceptions_of_get_system_info_witness:
  "get_system_info broken_distro_host = Inl (LibraryError ''FileNotFoundError'')
   \<and> get_system_info freebsd_host = Inl UnboundLocalError
   \<and> \<not> isl (get_system_info linux_host)"
proof -
  have b: "platform_architecture broken_distro_host \<noteq> Inr []"
    "os_query_failures broken_distro_host = [''FileNotFoundError'']"
    by (simp_all add: broken_distro_host_def linux_host_def os_query_failures_def raised_def)
  have f: "platform_architecture freebsd_host \<noteq> Inr []" "os_query_failures freebsd_host = []"
    "platform_system freebsd_host = Inr ''FreeBSD''"
    "\<forall>t. platform_mac_ver freebsd_host = Inr t \<longrightarrow> 3 \<le> length t"
    by (simp_all add: freebsd_host_def os_query_failures_def raised_def)
  have l: "platform_architecture linux_host \<noteq> Inr []" "os_query_failures linux_host = []"
    "platform_system linux_host = Inr ''Linux''"
    "\<forall>t. platform_mac_ver linux_host = Inr t \<longrightarrow> 3 \<le> length t"
    by (simp_all add: linux_host_def os_query_failures_def raised_def)
  from exceptions_of_get_system_info [OF b(1)] b(2)
  have "get_system_info broken_distro_host = Inl (LibraryError ''FileNotFoundError'')" by blast
  moreover from exceptions_of_get_system_info [OF f(1)] f
  have "get_system_info freebsd_host = Inl UnboundLocalError" by simp
  moreover from exceptions_of_get_system_info [OF l(1)] l
  have "\<not> isl (get_system_info linux_host)" by simp
  ultimately show ?thesis by blast
qed

subsection \<open>Determinism\<close>

text \<open>
  C9. Two runs of \<open>get_system_info\<close> in which the calls that it makes get the same
  answers (\<open>platform.architecture\<close>, the three calls of \<open>platform.system\<close>,
  \<open>distro.name\<close>, \<open>distro.version\<close>, \<open>distro.id\<close>, \<open>platform.win32_ver\<close> and
  \<open>platform.mac_ver\<close>) end with the same result. The two runs may differ in everything
  else: in the plugin and the objects of the framework, which the method leaves as it finds
  them, and in what \<open>platform.system()\<close> would answer to a fourth call.
\<close>

theorem get_system_info_run_deterministic:
  fixes \<sigma>1 :: "'a state" and \<sigma>2 :: "'b state"
  assumes "architecture_answer r1 = architecture_answer r2"
    and "system_answers r1 0 = system_answers r2 0"
    and "system_answers r1 1 = system_answers r2 1"
    and "system_answers r1 2 = system_answers r2 2"
    and "name_answer r1 = name_answer r2"
    and "version_answer r1 = version_answer r2"
    and "id_answer r1 = id_answer r2"
    and "win32_ver_answer r1 = win32_ver_answer r2"
    and "mac_ver_answer r1 = mac_ver_answer r2"
  shows "fst (get_system_info_run r1 \<sigma>1) = fst (get_system_info_run r2 \<sigma>2)
       \<and> snd (get_system_info_run r1 \<sigma>1) = \<sigma>1
       \<and> snd (get_system_info_run r2 \<sigma>2) = \<sigma>2"
  using assms by (simp add: get_system_info_run_def)

theorem get_system_info_run_deterministic_witness:
  "fst (get_system_info_run linux_run fresh_state) =
     fst (get_system_info_run linux_then_darwin_run busy_state)
   \<and> snd (get_system_info_run linux_run fresh_state) = fresh_state
   \<and> snd (get_system_info_run linux_then_darwin_run busy_state) = busy_state"
  by (rule get_system_info_run_deterministic)
     (simp_all add: linux_then_darwin_run_def linux_run_def run_on_def linux_host_def)

subsection \<open>The branch taken\<close>

text \<open>
  C10. Which branch assigns \<open>os_info\<close> depends on \<open>platform.system()\<close> alone. On a
  recognized family, each block that ends leaves a true value exactly on its own family,
  whatever the fields it has read, empty strings too: a template is never empty. When the
  three blocks have ended, the \<open>if\<close> statement of the family assigns \<open>os_info\<close>, the
  word of the family followed by the helper string of the family, and no other statement
  does; a string that is returned begins with that word, and \<open>return os_info\<close> never
  reads an unassigned local. On Linux and on macOS the string is returned whatever the
  fields hold.
\<close>

theorem os_info_assigned_for_recognized_family:
  assumes "platform_system h = Inr s"
    and "s = ''Linux'' \<or> s = ''Windows'' \<or> s = ''Darwin''"
  shows "get_system_info h \<noteq> Inl UnboundLocalError
       \<and> ((\<forall>v. get_distro_info h = Inr v \<longrightarrow> truthy v = (s = ''Linux''))
        \<and> (\<forall>v. get_win_version h = Inr v \<longrightarrow> truthy v = (s = ''Windows''))
        \<and> (\<forall>v. get_mac_version h = Inr v \<longrightarrow> truthy v = (s = ''Darwin'')))
       \<and> (\<forall>arch d w m. get_distro_info h = Inr d \<and> get_win_version h = Inr w \<and>
             get_mac_version h = Inr m \<longrightarrow>
             (\<exists>v. (if s = ''Linux'' then d else if s = ''Windows'' then w else m) = Some v
                \<and> build_os_info arch d w m =
                    Some ((if s = ''Linux'' then ''Linux '' @ arch @ '' ''
                           else if s = ''Windows'' then ''Windows '' else ''macOS '') @ v)))
       \<and> (\<forall>r. get_system_info h = Inr r \<longrightarrow>
             prefix (if s = ''Linux'' then ''Linux ''
                     else if s = ''Windows'' then ''Windows '' else ''macOS '') r)
       \<and> (\<forall>arch rest n v i. s = ''Linux'' \<and> platform_architecture h = Inr (arch # rest) \<and>
             distro_lib_name h = Inr n \<and> distro_lib_version h = Inr v \<and>
             distro_lib_id h = Inr i \<longrightarrow>
             get_system_info h =
               Inr (''Linux '' @ arch @ '' '' @ n @ '' '' @ v @ '' ('' @ i @ '')''))
       \<and> (\<forall>arch rest m0 m1 m2 rest2. s = ''Darwin'' \<and>
             platform_architecture h = Inr (arch # rest) \<and>
             platform_mac_ver h = Inr (m0 # m1 # m2 # rest2) \<longrightarrow>
             get_system_info h = Inr (''macOS '' @ m0 @ '' '' @ m2))"
proof -
  have 1: "get_system_info h \<noteq> Inl UnboundLocalError"
    using assms by (rule never_unbound_on_family)
  note 2 = helper_truthy_on_family [OF assms(1)]
  have 3: "\<forall>arch d w m. get_distro_info h = Inr d \<and> get_win_version h = Inr w \<and>
             get_mac_version h = Inr m \<longrightarrow>
             (\<exists>v. (if s = ''Linux'' then d else if s = ''Windows'' then w else m) = Some v
                \<and> build_os_info arch d w m =
                    Some ((if s = ''Linux'' then ''Linux '' @ arch @ '' ''
                           else if s = ''Windows'' then ''Windows '' else ''macOS '') @ v))"
  proof (intro allI impI, elim conjE)
    fix arch d w m
    assume "get_distro_info h = Inr d" "get_win_version h = Inr w" "get_mac_version h = Inr m"
    then show "\<exists>v. (if s = ''Linux'' then d else if s = ''Windows'' then w else m) = Some v
                \<and> build_os_info arch d w m =
                    Some ((if s = ''Linux'' then ''Linux '' @ arch @ '' ''
                           else if s = ''Windows'' then ''Windows '' else ''macOS '') @ v)"
      by (rule branch_assigns [OF assms])
  qed
  have 4: "\<forall>r. get_system_info h = Inr r \<longrightarrow>
             prefix (if s = ''Linux'' then ''Linux ''
                     else if s = ''Windows'' then ''Windows '' else ''macOS '') r"
  proof (intro allI impI)
    fix r assume "get_system_info h = Inr r"
    then show "prefix (if s = ''Linux'' then ''Linux ''
                     else if s = ''Windows'' then ''Windows '' else ''macOS '') r"
      by (rule result_of_family [OF assms])
  qed
  have 5: "\<forall>arch rest n v i. s = ''Linux'' \<and> platform_architecture h = Inr (arch # rest) \<and>
             distro_lib_name h = Inr n \<and> distro_lib_version h = Inr v \<and>
             distro_lib_id h = Inr i \<longrightarrow>
             get_system_info h =
               Inr (''Linux '' @ arch @ '' '' @ n @ '' '' @ v @ '' ('' @ i @ '')'')"
  proof (intro allI impI, elim conjE)
    fix arch rest n v i
    assume "s = ''Linux''" and a: "platform_architecture h = Inr (arch # rest)"
      "distro_lib_name h = Inr n" "distro_lib_version h = Inr v" "distro_lib_id h = Inr i"
    with assms(1) have "platform_system h = Inr ''Linux''" by simp
    with a show "get_system_info h =
               Inr (''Linux '' @ arch @ '' '' @ n @ '' '' @ v @ '' ('' @ i @ '')'')"
      by (simp only: get_system_info_linux)
  qed
  have 6: "\<forall>arch rest m0 m1 m2 rest2. s = ''Darwin'' \<and>
             platform_architecture h = Inr (arch # rest) \<and>
             platform_mac_ver h = Inr (m0 # m1 # m2 # rest2) \<longrightarrow>
             get_system_info h = Inr (''macOS '' @ m0 @ '' '' @ m2)"
  proof (intro allI impI, elim conjE)
    fix arch rest m0 m1 m2 rest2
    assume "s = ''Darwin''" and a: "platform_architecture h = Inr (arch # rest)"
      "platform_mac_ver h = Inr (m0 # m1 # m2 # rest2)"
    with assms(1) have "platform_system h = Inr ''Darwin''" by simp
    with a show "get_system_info h = Inr (''macOS '' @ m0 @ '' '' @ m2)"
      by (simp only: get_system_info_darwin)
  qed
  show ?thesis
    by (rule conjI [OF 1 conjI [OF 2 conjI [OF 3 conjI [OF 4 conjI [OF 5 6]]]]])
qed

theorem os_info_assigned_for_recognized_family_witness:
  "get_distro_info blank_linux_host = Inr (Some ''  ()'')
   \<and> truthy (Some ''  ()'')
   \<and> get_system_info blank_linux_host =
       Inr (''Linux '' @ ''64bit'' @ '' '' @ [] @ '' '' @ [] @ '' ('' @ [] @ '')'')
   \<and> get_mac_version blank_darwin_host = Inr (Some '' '')
   \<and> truthy (Some '' '')
   \<and> get_system_info blank_darwin_host = Inr (''macOS '' @ [] @ '' '' @ [])"
proof -
  have l: "platform_system blank_linux_host = Inr ''Linux''"
    and ld: "get_distro_info blank_linux_host = Inr (Some ''  ()'')"
    and lf: "''Linux'' = ''Linux'' \<and>
      platform_architecture blank_linux_host = Inr [''64bit'', ''ELF''] \<and>
      distro_lib_name blank_linux_host = Inr [] \<and>
      distro_lib_version blank_linux_host = Inr [] \<and>
      distro_lib_id blank_linux_host = Inr []"
    by (simp_all add: blank_linux_host_def linux_host_def get_distro_info_def call_def)
  have d: "platform_system blank_darwin_host = Inr ''Darwin''"
    and dm: "get_mac_version blank_darwin_host = Inr (Some '' '')"
    and df: "''Darwin'' = ''Darwin'' \<and>
      platform_architecture blank_darwin_host = Inr [''64bit'', []] \<and>
      platform_mac_ver blank_darwin_host = Inr [[], [], []]"
    by (simp_all add: blank_darwin_host_def darwin_host_def get_mac_version_def call_def
        seq_def tuple_index_def)
  have L: "''Linux'' = ''Linux'' \<or> ''Linux'' = ''Windows'' \<or> ''Linux'' = ''Darwin''"
    and D: "''Darwin'' = ''Linux'' \<or> ''Darwin'' = ''Windows'' \<or> ''Darwin'' = ''Darwin''"
    by simp_all
  note tl = os_info_assigned_for_recognized_family [OF l L]
  note td = os_info_assigned_for_recognized_family [OF d D]
  have "truthy (Some ''  ()'')"
    using tl [THEN conjunct2, THEN conjunct1, THEN conjunct1, rule_format, OF ld] by simp
  moreover have "get_system_info blank_linux_host =
       Inr (''Linux '' @ ''64bit'' @ '' '' @ [] @ '' '' @ [] @ '' ('' @ [] @ '')'')"
    by (rule tl [THEN conjunct2, THEN conjunct2, THEN conjunct2, THEN conjunct2,
          THEN conjunct1, rule_format, OF lf])
  moreover have "truthy (Some '' '')"
    using td [THEN conjunct2, THEN conjunct1, THEN conjunct2, THEN conjunct2, rule_format, OF dm]
    by simp
  moreover have "get_system_info blank_darwin_host = Inr (''macOS '' @ [] @ '' '' @ [])"
    by (rule td [THEN conjunct2, THEN conjunct2, THEN conjunct2, THEN conjunct2,
          THEN conjunct2, rule_format, OF df])
  ultimately show ?thesis using ld dm by simp
qed

end
